theory Spec2Isabelle
  imports Main
begin

section \<open>Wire and data types (types.ts)\<close>

text \<open>
  The severity passed to the logging sink, the priority of an action force and the
  ready state of the WebSocket are enumerations. A JSON value is a tree; a JSON object is
  the list of its members in key order, so \<open>Object.keys\<close> of an object is the list of
  first components.
\<close>

datatype LogLevel = DEBUG | LOG | INFO | WARN | ERROR

datatype ActionForcePriorityEnum = LOW | MEDIUM | HIGH | CRITICAL

datatype readyState = CONNECTING | OPEN | CLOSING | CLOSED

datatype json =
    JNull
  | JBool bool
  | JNum int
  | JStr string
  | JArr "json list"
  | JObj "(string \<times> json) list"

text \<open>\<open>interface Action\<close>: the optional \<open>schema\<close> is an object when it is present.\<close>

record Action =
  name :: string
  description :: string
  schema :: "(string \<times> json) list option"

text \<open>\<open>interface ActionMessageData\<close>, the payload of an incoming \<open>action\<close> command.\<close>

record ActionMessageData =
  amd_id :: string
  amd_name :: string
  amd_data :: "string option"

text \<open>\<open>interface ActionData\<close>, what a handler receives.\<close>

record ActionData =
  ad_id :: string
  ad_name :: string
  params :: json

text \<open>
  \<open>interface IncomingMessage\<close>: the decoded envelope, read through the type the source
  gives to the result of \<open>JSON.parse\<close>.
\<close>

record IncomingMessage =
  in_command :: string
  in_data :: "ActionMessageData option"

text \<open>
  The \<open>data\<close> of an outgoing message, one constructor per \<open>...MessageData\<close> interface.
  An optional field is an \<open>option\<close>: \<open>JSON.stringify\<close> leaves out a member whose value
  is \<open>undefined\<close>, so \<open>None\<close> is a member that the frame does not carry.
\<close>

datatype OutgoingData =
    ContextMessageData string "bool option"
  | RegisterActionsMessageData "Action list"
  | UnregisterActionsMessageData "string list"
  | ForceActionsMessageData
      (fa_state: "string option") (fa_query: string) (fa_ephemeral_context: "bool option")
      (fa_priority: "ActionForcePriorityEnum option") (fa_action_names: "string list")
  | ActionResultMessageData
      (ar_id: string) (ar_success: bool) (ar_message: "string option")

record OutgoingMessage =
  msg_command :: string
  msg_game :: string
  msg_data :: "OutgoingData option"

text \<open>The result of the external \<open>validate\<close>; of each error only \<open>stack\<close> is read.\<close>

record ValidatorResult =
  valid :: bool
  errors :: "string list"

section \<open>The client object\<close>

text \<open>
  A handler in \<open>actionHandlers\<close> is either a callback of the host application, known by a
  number, or the method \<open>handleActionMessage\<close> itself, which the constructor of
  \<open>NeuroClientWrapper\<close> pushes as a plain function value (without a receiver).
\<close>

datatype ActionHandler = Own_handleActionMessage | HostHandler nat

datatype fault = TypeError string

datatype outcome = Returned | Threw fault

text \<open>
  Arrays of actions live in a store, because \<open>registerActions\<close> is also called with the
  registry array itself as its argument. The object's fields are the fields of the classes
  \<open>NeuroClient\<close> and \<open>NeuroClientWrapper\<close>; the remaining fields record what the object
  does to the outside: the frames handed to \<open>ws.send\<close>, the calls of \<open>ws.close\<close>, the
  calls of \<open>loggingHandler\<close>, the direct calls of \<open>console\<close> (by their first argument)
  and the calls of host handlers.
\<close>

type_synonym addr = nat

record NeuroClientWrapper =
  url :: string
  game :: string
  ws :: "readyState option"
  actionHandlers :: "ActionHandler list"
  registeredActions :: addr
  heap :: "addr \<Rightarrow> Action list"
  sent :: "OutgoingMessage list"
  closes :: nat
  logged :: "(LogLevel \<times> string) list"
  console :: "(LogLevel \<times> string) list"
  invoked :: "(nat \<times> ActionData) list"

text \<open>
  The constructors: \<open>connect\<close> creates the socket, which starts in \<open>CONNECTING\<close>; the
  wrapper's registry is a new empty array and its handler list holds its own method.
\<close>

definition new_NeuroClientWrapper :: "string \<Rightarrow> string \<Rightarrow> NeuroClientWrapper" where
  "new_NeuroClientWrapper u g =
     \<lparr> url = u, game = g, ws = Some CONNECTING,
       actionHandlers = [Own_handleActionMessage],
       registeredActions = 0, heap = (\<lambda>_. []),
       sent = [], closes = 0, logged = [], console = [], invoked = [] \<rparr>"

section \<open>Strings\<close>

definition dq :: char where
  "dq = CHR 0x22"

definition sq :: char where
  "sq = CHR 0x27"

definition nl :: char where
  "nl = CHR 0x0A"

text \<open>\<open>Array.prototype.join\<close>.\<close>

fun join :: "string \<Rightarrow> string list \<Rightarrow> string" where
  "join sep [] = []"
| "join sep [x] = x"
| "join sep (x # y # ys) = x @ sep @ join sep (y # ys)"

definition startsWith :: "string \<Rightarrow> string \<Rightarrow> bool" where
  "startsWith p s = (take (length p) s = p)"

text \<open>\<open>`"${names.join('", "')}"`\<close>, the quoted list used by the log messages.\<close>

definition quoted :: "string list \<Rightarrow> string" where
  "quoted names = [dq] @ join ([dq] @ '', '' @ [dq]) names @ [dq]"

section \<open>NeuroClient (index.ts)\<close>

definition loggingHandler :: "string \<Rightarrow> LogLevel \<Rightarrow> NeuroClientWrapper \<Rightarrow> NeuroClientWrapper" where
  "loggingHandler message level s = s\<lparr>logged := logged s @ [(level, message)]\<rparr>"

definition console_call :: "LogLevel \<Rightarrow> string \<Rightarrow> NeuroClientWrapper \<Rightarrow> NeuroClientWrapper" where
  "console_call level message s = s\<lparr>console := console s @ [(level, message)]\<rparr>"

definition sendMessage :: "OutgoingMessage \<Rightarrow> NeuroClientWrapper \<Rightarrow> NeuroClientWrapper" where
  "sendMessage message s =
     (if ws s = Some OPEN then s\<lparr>sent := sent s @ [message]\<rparr>
      else console_call ERROR ''[NeuroClient] WebSocket is not open. Ready state:'' s)"

definition sendActionResult ::
  "string \<Rightarrow> bool \<Rightarrow> string option \<Rightarrow> NeuroClientWrapper \<Rightarrow> NeuroClientWrapper" where
  "sendActionResult i success messageText s =
     (let s1 = (if \<not> success
                then console_call WARN
                  ''[NeuroClient] Empty messageText field even though success was false!'' s
                else s)
      in sendMessage
           \<lparr> msg_command = ''action/result'', msg_game = game s1,
             msg_data = Some (ActionResultMessageData i success messageText) \<rparr> s1)"

definition onAction :: "ActionHandler \<Rightarrow> NeuroClientWrapper \<Rightarrow> NeuroClientWrapper" where
  "onAction handler s = s\<lparr>actionHandlers := actionHandlers s @ [handler]\<rparr>"

text \<open>
  \<open>disconnect\<close>. The transport is external: \<open>close()\<close> on an open WebSocket moves its
  ready state to \<open>CLOSING\<close> at once and the close event follows later, once per socket.
\<close>

definition disconnect :: "NeuroClientWrapper \<Rightarrow> NeuroClientWrapper" where
  "disconnect s =
     (if ws s = Some OPEN then s\<lparr>ws := Some CLOSING, closes := Suc (closes s)\<rparr> else s)"

text \<open>
  \<open>NeuroClient.forceActions\<close>, with its default parameter values: a default applies
  when the argument is \<open>undefined\<close>.
\<close>

definition NeuroClient_forceActions ::
  "string \<Rightarrow> string list \<Rightarrow> string option \<Rightarrow> bool option \<Rightarrow> ActionForcePriorityEnum option
     \<Rightarrow> NeuroClientWrapper \<Rightarrow> NeuroClientWrapper" where
  "NeuroClient_forceActions query actionNames state ephemeralContext priority s =
     (let ephemeralContext' = (case ephemeralContext of None \<Rightarrow> False | Some b \<Rightarrow> b);
          priority' = (case priority of None \<Rightarrow> LOW | Some p \<Rightarrow> p)
      in sendMessage
           \<lparr> msg_command = ''actions/force'', msg_game = game s,
             msg_data = Some (ForceActionsMessageData state query (Some ephemeralContext')
                                (Some priority') actionNames) \<rparr> s)"

section \<open>NeuroClientWrapper\<close>

subsection \<open>Array operations of the platform\<close>

text \<open>\<open>Array.prototype.findIndex\<close>: the index of the first match, or \<open>-1\<close>.\<close>

fun findIndex :: "('a \<Rightarrow> bool) \<Rightarrow> 'a list \<Rightarrow> int" where
  "findIndex P [] = - 1"
| "findIndex P (x # xs) =
     (if P x then 0 else (let i = findIndex P xs in if i = - 1 then - 1 else i + 1))"

text \<open>\<open>xs[i]\<close>: reading an array at an index it does not have gives \<open>undefined\<close>.\<close>

definition at_index :: "'a list \<Rightarrow> int \<Rightarrow> 'a option" where
  "at_index xs i = (if 0 \<le> i \<and> nat i < length xs then Some (xs ! nat i) else None)"

text \<open>\<open>xs.splice(i, 1)\<close> for an index \<open>i \<ge> 0\<close>: the element at \<open>i\<close> is removed.\<close>

definition splice1 :: "int \<Rightarrow> 'a list \<Rightarrow> 'a list" where
  "splice1 i xs = take (nat i) xs @ drop (Suc (nat i)) xs"

subsection \<open>registerActions\<close>

text \<open>
  The argument is a reference to an array. The loop collects the name of each action of
  the argument whose name the registry has; \<open>push(...actions)\<close> reads the argument and
  then appends to the registry; the message holds the reference, and \<open>sendMessage\<close>
  serialises what the array holds at that moment.
\<close>

definition registerActions :: "addr \<Rightarrow> NeuroClientWrapper \<Rightarrow> NeuroClientWrapper" where
  "registerActions actions s =
     (let knownActions =
            map name (filter (\<lambda>a. find (\<lambda>a'. name a = name a') (heap s (registeredActions s)) \<noteq> None)
                       (heap s actions));
          s1 = (if length knownActions \<noteq> 0
                then loggingHandler
                       (''Duplicate action registered: '' @ quoted knownActions @ [nl]
                          @ ''The Neuro server will ignore those registrations.'') WARN s
                else s);
          s2 = s1\<lparr>heap := (heap s1)(registeredActions s1 :=
                                      heap s1 (registeredActions s1) @ heap s1 actions)\<rparr>
      in sendMessage
           \<lparr> msg_command = ''actions/register'', msg_game = game s2,
             msg_data = Some (RegisterActionsMessageData (heap s2 actions)) \<rparr> s2)"

subsection \<open>unregisterActions\<close>

text \<open>
  The loop over the requested names, on the registry array and the list \<open>unknownNames\<close>.
  For a name that \<open>findIndex\<close> does not find, the source reads
  \<open>this.registeredActions[action].name\<close> with \<open>action = -1\<close>: the element is
  \<open>undefined\<close> and reading its \<open>name\<close> throws. What the loop removed before stays
  removed.
\<close>

fun unregister_loop ::
  "string list \<Rightarrow> Action list \<Rightarrow> string list \<Rightarrow> outcome \<times> Action list \<times> string list" where
  "unregister_loop [] reg unknownNames = (Returned, reg, unknownNames)"
| "unregister_loop (n # ns) reg unknownNames =
     (let action = findIndex (\<lambda>a. name a = n) reg
      in if action = - 1
         then (case at_index reg action of
                 None \<Rightarrow>
                   (Threw (TypeError ''Cannot read properties of undefined (reading 'name')''),
                    reg, unknownNames)
               | Some a \<Rightarrow> unregister_loop ns reg (unknownNames @ [name a]))
         else unregister_loop ns (splice1 action reg) unknownNames)"

definition unregisterActions ::
  "string list \<Rightarrow> NeuroClientWrapper \<Rightarrow> outcome \<times> NeuroClientWrapper" where
  "unregisterActions actionNames s =
     (case unregister_loop actionNames (heap s (registeredActions s)) [] of
        (Threw e, reg, unknownNames) \<Rightarrow>
          (Threw e, s\<lparr>heap := (heap s)(registeredActions s := reg)\<rparr>)
      | (Returned, reg, unknownNames) \<Rightarrow>
          (let s1 = s\<lparr>heap := (heap s)(registeredActions s := reg)\<rparr>;
               s2 = (if length unknownNames \<noteq> 0
                     then loggingHandler
                            (''Actions not registered: '' @ quoted unknownNames @ [nl]
                               @ ''The Neuro server will ignore those unregistrations.'') INFO s1
                     else s1)
           in (Returned,
               sendMessage
                 \<lparr> msg_command = ''actions/unregister'', msg_game = game s2,
                   msg_data = Some (UnregisterActionsMessageData actionNames) \<rparr> s2)))"

subsection \<open>forceActions\<close>

text \<open>
  The wrapper's override. Its optional parameters have no default values, and it does not
  call the method of \<open>NeuroClient\<close>.
\<close>

definition forceActions ::
  "string \<Rightarrow> string list \<Rightarrow> string option \<Rightarrow> bool option \<Rightarrow> ActionForcePriorityEnum option
     \<Rightarrow> NeuroClientWrapper \<Rightarrow> NeuroClientWrapper" where
  "forceActions query actionNames state ephemeralContext priority s =
     (let unknownNames =
            filter (\<lambda>n. find (\<lambda>a. name a = n) (heap s (registeredActions s)) = None) actionNames;
          s1 = (if length unknownNames = length actionNames
                then loggingHandler
                       ''All specified actions are unknown to Neuro, the action force will be dropped.''
                       ERROR s
                else if length unknownNames > 1
                then loggingHandler
                       (''Unknown actions specified in force: '' @ quoted unknownNames
                          @ ''. These actions will not be considered by Neuro.'') WARN s
                else s)
      in sendMessage
           \<lparr> msg_command = ''actions/force'', msg_game = game s1,
             msg_data = Some (ForceActionsMessageData state query ephemeralContext priority
                                actionNames) \<rparr> s1)"

subsection \<open>Dispatch of an incoming action\<close>

text \<open>
  Calling a handler. A host handler is external: the call is recorded and returns. The
  wrapper's own method is called as a plain function, so inside it \<open>this\<close> is
  \<open>undefined\<close> (class bodies are strict code): its argument is an \<open>ActionData\<close>, which
  has no \<open>data\<close>, so the parse is skipped, and the next statement reads
  \<open>this.registeredActions\<close> and throws.
\<close>

definition handleActionMessage_unbound ::
  "ActionData \<Rightarrow> NeuroClientWrapper \<Rightarrow> outcome \<times> NeuroClientWrapper" where
  "handleActionMessage_unbound d s =
     (Threw (TypeError ''Cannot read properties of undefined (reading 'registeredActions')''), s)"

fun call_handler ::
  "ActionHandler \<Rightarrow> ActionData \<Rightarrow> NeuroClientWrapper \<Rightarrow> outcome \<times> NeuroClientWrapper" where
  "call_handler (HostHandler k) d s = (Returned, s\<lparr>invoked := invoked s @ [(k, d)]\<rparr>)"
| "call_handler Own_handleActionMessage d s = handleActionMessage_unbound d s"

text \<open>\<open>for (const handler of this.actionHandlers) handler(...)\<close>: a throw ends the loop.\<close>

fun call_handlers ::
  "ActionHandler list \<Rightarrow> ActionData \<Rightarrow> NeuroClientWrapper \<Rightarrow> outcome \<times> NeuroClientWrapper" where
  "call_handlers [] d s = (Returned, s)"
| "call_handlers (h # hs) d s =
     (case call_handler h d s of
        (Returned, s') \<Rightarrow> call_handlers hs d s'
      | (Threw e, s') \<Rightarrow> (Threw e, s'))"

text \<open>
  The message of a failed validation. The source builds \<open>schemaFailures\<close> and then writes
  the message as one template literal, in which \<open>' + schemaFailures + '\<close> is text.
\<close>

definition schema_failure_message :: "string \<Rightarrow> string list \<Rightarrow> string" where
  "schema_failure_message n errs =
     (let messagesArray =
            map (\<lambda>stack. if startsWith ''instance.'' stack then drop 9 stack else stack) errs;
          messagesArray' =
            (if length messagesArray = 0 then [''Unknown schema validation error.'']
             else messagesArray);
          schemaFailures = ''- '' @ join ([nl] @ ''- '') messagesArray'
      in ''[NeuroClientWrapper] Your inputs for the action '' @ [dq] @ n @ [dq]
           @ '' did not pass schema validation.'' @ [nl, nl, sq] @ '' + schemaFailures + ''
           @ [sq, nl, nl]
           @ ''Please pay attention to the schema and the above errors if you choose to retry.'')"

text \<open>
  \<open>handleActionMessage\<close>, called as a method. \<open>JSON.parse\<close> and \<open>validate\<close> are
  external and are parameters; \<open>JSON.parse\<close> gives the parsed value or the message of
  the error it throws. An empty string is falsy, so it is not parsed.
\<close>

definition handleActionMessage ::
  "(string \<Rightarrow> string + json) \<Rightarrow> (json \<Rightarrow> (string \<times> json) list \<Rightarrow> ValidatorResult)
     \<Rightarrow> ActionMessageData \<Rightarrow> NeuroClientWrapper \<Rightarrow> outcome \<times> NeuroClientWrapper" where
  "handleActionMessage JSON_parse validate d s =
     (case (case amd_data d of
              None \<Rightarrow> Inr (JObj [])
            | Some str \<Rightarrow> if str = [] then Inr (JObj []) else JSON_parse str) of
        Inl err \<Rightarrow>
          (let errorMessage = ''Invalid action data: '' @ err
           in (Returned,
               console_call ERROR (''[NeuroClientWrapper] '' @ errorMessage)
                 (sendActionResult (amd_id d) False (Some errorMessage) s)))
      | Inr actionParams \<Rightarrow>
          (case find (\<lambda>a. name a = amd_name d) (heap s (registeredActions s)) of
             None \<Rightarrow>
               (Returned,
                sendActionResult (amd_id d) True
                  (Some (''[NeuroClientWrapper] Unknown action: '' @ [dq] @ amd_name d @ [dq])) s)
           | Some action \<Rightarrow>
               (case (case schema action of
                        None \<Rightarrow> None
                      | Some sch \<Rightarrow>
                          if length (map fst sch) \<noteq> 0 \<and> \<not> valid (validate actionParams sch)
                          then Some (errors (validate actionParams sch)) else None) of
                  Some errs \<Rightarrow>
                    (Returned,
                     sendActionResult (amd_id d) False
                       (Some (schema_failure_message (amd_name d) errs)) s)
                | None \<Rightarrow>
                    if length (actionHandlers s) > 0
                    then call_handlers (actionHandlers s)
                           \<lparr> ad_id = amd_id d, ad_name = amd_name d, params = actionParams \<rparr> s
                    else (Returned,
                          loggingHandler ''[NeuroClientWrapper] No action handlers registered.''
                            ERROR s))))"

subsection \<open>Incoming frames\<close>

text \<open>
  \<open>handleMessage\<close>. The decoding of the frame into an \<open>IncomingMessage\<close> is a parameter.
  An \<open>action\<close> command without \<open>data\<close> throws when \<open>data.data\<close> is read.
\<close>

definition handleMessage ::
  "(string \<Rightarrow> string + IncomingMessage) \<Rightarrow> (string \<Rightarrow> string + json)
     \<Rightarrow> (json \<Rightarrow> (string \<times> json) list \<Rightarrow> ValidatorResult)
     \<Rightarrow> string \<Rightarrow> NeuroClientWrapper \<Rightarrow> outcome \<times> NeuroClientWrapper" where
  "handleMessage decode JSON_parse validate frame s =
     (case decode frame of
        Inl err \<Rightarrow>
          (Returned,
           loggingHandler (''[NeuroClientWrapper] Invalid JSON received: '' @ frame) ERROR s)
      | Inr message \<Rightarrow>
          if in_command message = ''action''
          then (case in_data message of
                  None \<Rightarrow>
                    (Threw (TypeError ''Cannot read properties of undefined (reading 'data')''), s)
                | Some d \<Rightarrow> handleActionMessage JSON_parse validate d s)
          else if in_command message = ''actions/reregister_all''
          then (Returned, registerActions (registeredActions s) s)
          else (Returned,
                loggingHandler
                  (''[NeuroClientWrapper] Received unknown/unimplemented command: ''
                     @ in_command message) WARN s))"

section \<open>Example objects\<close>

text \<open>
  An action without a schema, the action of the demo page, and a wrapper whose connection
  is open and whose registry holds the given actions; address \<open>1\<close> holds the array a
  caller passes to \<open>registerActions\<close>.
\<close>

definition ex_action :: "string \<Rightarrow> Action" where
  "ex_action n = \<lparr> name = n, description = ''An action.'', schema = None \<rparr>"

definition ex_guess_number :: Action where
  "ex_guess_number =
     \<lparr> name = ''guess_number'', description = ''Guess the number between 1 and 10.'',
       schema = Some [(''type'', JStr ''object''),
                      (''properties'',
                       JObj [(''number'',
                              JObj [(''type'', JStr ''integer''), (''minimum'', JNum 1),
                                    (''maximum'', JNum 10)])])] \<rparr>"

definition ex_client :: "Action list \<Rightarrow> Action list \<Rightarrow> NeuroClientWrapper" where
  "ex_client registered passed =
     (new_NeuroClientWrapper ''ws://localhost:8000'' ''Game'')
       \<lparr> ws := Some OPEN, heap := (\<lambda>_. [])(0 := registered, 1 := passed) \<rparr>"

section \<open>Theorems\<close>

subsection \<open>Auxiliary facts\<close>

text \<open>\<open>findIndex\<close> gives \<open>-1\<close> exactly when no element matches.\<close>

lemma findIndex_range: "- 1 \<le> findIndex P xs \<and> findIndex P xs < int (length xs)"
  by (induction xs) (auto simp: Let_def)

lemma findIndex_absent: "findIndex P xs = - 1 \<longleftrightarrow> (\<forall>x \<in> set xs. \<not> P x)"
proof (induction xs)
  case Nil
  show ?case by simp
next
  case (Cons x xs)
  with findIndex_range [of P xs] show ?case by (auto simp: Let_def)
qed

text \<open>Removing an element adds no name to the registry.\<close>

lemma set_splice1: "set (splice1 i xs) \<subseteq> set xs"
  unfolding splice1_def by (auto dest: in_set_takeD in_set_dropD)

text \<open>
  Whenever some requested name is missing from the registry, \<open>unregisterActions\<close>
  throws, before anything is logged or sent.
\<close>

lemma unregister_loop_absent_throws:
  "\<exists>n \<in> set ns. n \<notin> name ` set reg \<Longrightarrow>
     \<exists>reg' u. unregister_loop ns reg unknownNames
        = (Threw (TypeError ''Cannot read properties of undefined (reading 'name')''), reg', u)"
proof (induction ns arbitrary: reg)
  case Nil
  then show ?case by simp
next
  case (Cons n ns)
  show ?case
  proof (cases "findIndex (\<lambda>a. name a = n) reg = - 1")
    case True
    then show ?thesis by (simp add: at_index_def)
  next
    case False
    then have "n \<in> name ` set reg"
      by (auto simp: findIndex_absent)
    with Cons.prems obtain m where m: "m \<in> set ns" "m \<notin> name ` set reg"
      by auto
    have "m \<notin> name ` set (splice1 (findIndex (\<lambda>a. name a = n) reg) reg)"
      using m(2) set_splice1 by fastforce
    with m(1) Cons.IH [of "splice1 (findIndex (\<lambda>a. name a = n) reg) reg"] False
    show ?thesis by (auto simp: Let_def)
  qed
qed

lemma unregisterActions_absent_throws:
  assumes "\<exists>n \<in> set actionNames. n \<notin> name ` set (heap s (registeredActions s))"
  shows "fst (unregisterActions actionNames s)
           = Threw (TypeError ''Cannot read properties of undefined (reading 'name')'')
         \<and> sent (snd (unregisterActions actionNames s)) = sent s
         \<and> logged (snd (unregisterActions actionNames s)) = logged s"
proof -
  from unregister_loop_absent_throws [OF assms, of "[]"]
  obtain reg' u where
    "unregister_loop actionNames (heap s (registeredActions s)) []
       = (Threw (TypeError ''Cannot read properties of undefined (reading 'name')''), reg', u)"
    by blast
  then show ?thesis by (simp add: unregisterActions_def)
qed

text \<open>
  The loop over the handlers calls each host handler once, in order; with the wrapper's own
  method in front it throws at once.
\<close>

lemma call_handlers_hosts:
  "call_handlers (map HostHandler ks) d s
     = (Returned, s\<lparr>invoked := invoked s @ map (\<lambda>k. (k, d)) ks\<rparr>)"
  by (induction ks arbitrary: s) auto

lemma call_handlers_own_first:
  "call_handlers (Own_handleActionMessage # hs) d s
     = (Threw (TypeError ''Cannot read properties of undefined (reading 'registeredActions')''), s)"
  by (simp add: handleActionMessage_unbound_def)

text \<open>The message of a failed validation does not depend on the errors reported.\<close>

lemma schema_failure_message_ignores_errors:
  "schema_failure_message n errs = schema_failure_message n errs'"
  by (simp add: schema_failure_message_def Let_def)

text \<open>
  \<open>forceActions\<close> logs nothing when exactly one of several requested names is unknown.
\<close>

lemma forceActions_single_unknown_silent:
  assumes "length (filter (\<lambda>n. find (\<lambda>a. name a = n) (heap s (registeredActions s)) = None)
                     actionNames) = 1"
    and "length actionNames \<noteq> 1"
  shows "logged (forceActions query actionNames state ephemeralContext priority s) = logged s"
  using assms
  by (simp add: forceActions_def Let_def sendMessage_def console_call_def)

text \<open>
  An \<open>actions/reregister_all\<close> command appends the registry to itself, and logs when the
  registry is not empty.
\<close>

lemma registry_known_to_itself:
  "reg \<noteq> [] \<Longrightarrow> filter (\<lambda>a. find (\<lambda>a'. name a = name a') reg \<noteq> None) reg \<noteq> []"
  by (cases reg) auto

lemma reregister_all_doubles:
  assumes "decode frame = Inr \<lparr> in_command = ''actions/reregister_all'', in_data = None \<rparr>"
  shows "fst (handleMessage decode JSON_parse validate frame s) = Returned
   \<and> heap (snd (handleMessage decode JSON_parse validate frame s)) (registeredActions s)
       = heap s (registeredActions s) @ heap s (registeredActions s)
   \<and> (heap s (registeredActions s) \<noteq> [] \<longrightarrow>
        length (logged (snd (handleMessage decode JSON_parse validate frame s)))
          = Suc (length (logged s)))"
  using assms registry_known_to_itself [of "heap s (registeredActions s)"]
  by (auto simp: handleMessage_def registerActions_def Let_def sendMessage_def
        console_call_def loggingHandler_def)

text \<open>\<open>find\<close> on an appended array.\<close>

lemma find_append_registry:
  "find P (xs @ ys) = (case find P xs of None \<Rightarrow> find P ys | Some x \<Rightarrow> Some x)"
  by (induction xs) auto

subsection \<open>The claims\<close>

text \<open>
  C1 (as amended). \<open>registerActions\<close>, called with an array of the caller's, appends
  every action of the batch to the registry, duplicates included, so the registry can hold
  several entries of one name. A lookup by a name that was registered before the call still
  finds the entry it found before. Exactly one WARN is logged when the batch has a name that
  was already registered, and it names each such entry of the batch; nothing is logged
  otherwise. While the connection is open, one \<open>actions/register\<close> frame is sent and
  lists every action passed to the call.
\<close>

theorem registerActions_appends:
  assumes "actions \<noteq> registeredActions s"
  shows "registeredActions (registerActions actions s) = registeredActions s
    \<and> heap (registerActions actions s) (registeredActions s)
        = heap s (registeredActions s) @ heap s actions
    \<and> (\<forall>n. find (\<lambda>a. name a = n) (heap s (registeredActions s)) \<noteq> None \<longrightarrow>
             find (\<lambda>a. name a = n) (heap (registerActions actions s) (registeredActions s))
               = find (\<lambda>a. name a = n) (heap s (registeredActions s)))
    \<and> logged (registerActions actions s)
        = logged s @
          (let dups = map name (filter (\<lambda>a. name a \<in> name ` set (heap s (registeredActions s)))
                                  (heap s actions))
           in if dups = [] then []
              else [(WARN, ''Duplicate action registered: '' @ quoted dups @ [nl]
                             @ ''The Neuro server will ignore those registrations.'')])
    \<and> (ws s = Some OPEN \<longrightarrow>
          sent (registerActions actions s)
            = sent s @ [\<lparr> msg_command = ''actions/register'', msg_game = game s,
                          msg_data = Some (RegisterActionsMessageData (heap s actions)) \<rparr>])"
proof -
  have known: "(\<lambda>a. find (\<lambda>a'. name a = name a') (heap s (registeredActions s)) \<noteq> None)
                = (\<lambda>a. name a \<in> name ` set (heap s (registeredActions s)))"
    by (auto simp: find_None_iff image_iff)
  show ?thesis
    using assms unfolding registerActions_def known
    by (auto simp: Let_def sendMessage_def loggingHandler_def
                   console_call_def find_append_registry split: option.splits)
qed

text \<open>
  The amended C1 at a registry holding \<open>a\<close> and a batch of \<open>a\<close> and \<open>b\<close>.
\<close>

theorem registerActions_appends_witness:
  "(1::nat) \<noteq> registeredActions (ex_client [ex_action ''a''] [ex_action ''a'', ex_action ''b''])
   \<and> heap (registerActions 1 (ex_client [ex_action ''a''] [ex_action ''a'', ex_action ''b''])) 0
       = [ex_action ''a'', ex_action ''a'', ex_action ''b'']
   \<and> find (\<lambda>a. name a = ''a'')
        (heap (registerActions 1 (ex_client [ex_action ''a''] [ex_action ''a'', ex_action ''b''])) 0)
       = Some (ex_action ''a'')
   \<and> logged (registerActions 1 (ex_client [ex_action ''a''] [ex_action ''a'', ex_action ''b'']))
       = [(WARN, ''Duplicate action registered: '' @ [dq] @ ''a'' @ [dq, nl]
                   @ ''The Neuro server will ignore those registrations.'')]
   \<and> sent (registerActions 1 (ex_client [ex_action ''a''] [ex_action ''a'', ex_action ''b'']))
       = [\<lparr> msg_command = ''actions/register'', msg_game = ''Game'',
            msg_data = Some (RegisterActionsMessageData [ex_action ''a'', ex_action ''b'']) \<rparr>]"
  using registerActions_appends
          [of 1 "ex_client [ex_action ''a''] [ex_action ''a'', ex_action ''b'']"]
  by (simp add: ex_client_def new_NeuroClientWrapper_def ex_action_def quoted_def)

text \<open>
  C1 as stated fails: after \<open>a\<close> is registered a second time the registry holds two
  entries named \<open>a\<close>.
\<close>

theorem registerActions_duplicate_counterexample:
  "length (filter (\<lambda>a. name a = ''a'')
       (heap (registerActions 1 (ex_client [ex_action ''a''] [ex_action ''a'']))
          (registeredActions (registerActions 1 (ex_client [ex_action ''a''] [ex_action ''a'']))))) = 2"
  by (simp add: registerActions_def ex_client_def new_NeuroClientWrapper_def ex_action_def
        sendMessage_def loggingHandler_def Let_def)

text \<open>
  C2. An incoming \<open>actions/reregister_all\<close> calls \<open>registerActions\<close> with the
  registry array itself. With \<open>a\<close> registered, the code logs one duplicate-name WARN,
  the registry becomes \<open>a, a\<close>, and the frame sent lists \<open>a\<close> twice, where the claim
  has no warning, an unchanged registry and a frame listing \<open>a\<close> once.
\<close>

theorem reregister_all_doubles_registry:
  "handleMessage (\<lambda>_. Inr \<lparr> in_command = ''actions/reregister_all'', in_data = None \<rparr>)
       (\<lambda>_. Inr (JObj [])) (\<lambda>_ _. \<lparr> valid = True, errors = [] \<rparr>)
       ''{\"command\":\"actions/reregister_all\"}'' (ex_client [ex_action ''a''] [])
     = (Returned,
        (ex_client [ex_action ''a''] [])
          \<lparr> heap := (heap (ex_client [ex_action ''a''] []))(0 := [ex_action ''a'', ex_action ''a'']),
            sent := [\<lparr> msg_command = ''actions/register'', msg_game = ''Game'',
                       msg_data = Some (RegisterActionsMessageData
                                          [ex_action ''a'', ex_action ''a'']) \<rparr>],
            logged := [(WARN, ''Duplicate action registered: '' @ [dq] @ ''a'' @ [dq, nl]
                               @ ''The Neuro server will ignore those registrations.'')] \<rparr>)"
  by (simp add: handleMessage_def registerActions_def ex_client_def new_NeuroClientWrapper_def
        ex_action_def sendMessage_def loggingHandler_def Let_def quoted_def)

text \<open>
  C3. \<open>unregisterActions\<close> with a name that is not registered: the code throws a
  \<open>TypeError\<close>, logs nothing and sends no frame, where the claim has the call complete,
  log one INFO entry and send the \<open>actions/unregister\<close> frame.
\<close>

theorem unregisterActions_unknown_name_throws:
  "fst (unregisterActions [''x''] (ex_client [ex_action ''a''] []))
     = Threw (TypeError ''Cannot read properties of undefined (reading 'name')'')
   \<and> sent (snd (unregisterActions [''x''] (ex_client [ex_action ''a''] []))) = []
   \<and> logged (snd (unregisterActions [''x''] (ex_client [ex_action ''a''] []))) = []
   \<and> heap (snd (unregisterActions [''x''] (ex_client [ex_action ''a''] []))) 0
       = [ex_action ''a'']"
  by (simp add: unregisterActions_def ex_client_def new_NeuroClientWrapper_def
        ex_action_def at_index_def Let_def)

text \<open>
  C4. A request for \<open>guess_number\<close> whose params fail validation with the error
  \<open>instance.number must be less than or equal to 10\<close>: one \<open>action/result\<close> with
  \<open>success = false\<close> is sent and no handler is called, but the message holds the text
  \<open>' + schemaFailures + '\<close> in place of the list of errors.
\<close>

theorem schema_failure_message_without_errors:
  "handleActionMessage (\<lambda>_. Inr (JObj [(''number'', JNum 99)]))
       (\<lambda>_ _. \<lparr> valid = False,
                 errors = [''instance.number must be less than or equal to 10''] \<rparr>)
       \<lparr> amd_id = ''1'', amd_name = ''guess_number'', amd_data = Some ''{\"number\":99}'' \<rparr>
       (ex_client [ex_guess_number] [])
     = (Returned,
        (ex_client [ex_guess_number] [])
          \<lparr> sent := [\<lparr> msg_command = ''action/result'', msg_game = ''Game'',
                       msg_data = Some (ActionResultMessageData ''1'' False
                         (Some (''[NeuroClientWrapper] Your inputs for the action '' @ [dq]
                            @ ''guess_number'' @ [dq] @ '' did not pass schema validation.''
                            @ [nl, nl, sq] @ '' + schemaFailures + '' @ [sq, nl, nl]
                            @ ''Please pay attention to the schema and the above errors if you choose to retry.''))) \<rparr>],
            console := [(WARN, ''[NeuroClient] Empty messageText field even though success was false!'')] \<rparr>)"
  by (simp add: handleActionMessage_def schema_failure_message_def sendActionResult_def
        sendMessage_def console_call_def ex_client_def new_NeuroClientWrapper_def
        ex_guess_number_def Let_def)

text \<open>
  C5. \<open>forceActions\<close> for \<open>a\<close> and \<open>b\<close> when only \<open>a\<close> is registered: the
  frame carries both names, but no WARN is logged, because the code warns only when more
  than one name is unknown.
\<close>

theorem forceActions_one_unknown_no_warn:
  "logged (forceActions ''pick one'' [''a'', ''b''] None None (Some LOW)
            (ex_client [ex_action ''a''] [])) = []
   \<and> sent (forceActions ''pick one'' [''a'', ''b''] None None (Some LOW)
            (ex_client [ex_action ''a''] []))
       = [\<lparr> msg_command = ''actions/force'', msg_game = ''Game'',
            msg_data = Some (ForceActionsMessageData None ''pick one'' None (Some LOW)
                               [''a'', ''b'']) \<rparr>]"
  by (simp add: forceActions_def ex_client_def new_NeuroClientWrapper_def
        ex_action_def sendMessage_def loggingHandler_def Let_def)

text \<open>
  C6 (as amended). For an incoming action request whose name has no entry in the registry
  and whose data is absent, empty or parsed by \<open>JSON.parse\<close>, while the connection is
  open: exactly one \<open>action/result\<close> is sent, for the request's id, with
  \<open>success = true\<close> and the message \<open>[NeuroClientWrapper] Unknown action: "name"\<close>;
  nothing else changes, so no handler is called.
\<close>

theorem unknown_action_result:
  assumes "ws s = Some OPEN"
    and "find (\<lambda>a. name a = amd_name d) (heap s (registeredActions s)) = None"
    and "amd_data d = None \<or> amd_data d = Some []
           \<or> (\<exists>str p. amd_data d = Some str \<and> JSON_parse str = Inr p)"
  shows "handleActionMessage JSON_parse validate d s
           = (Returned,
              s\<lparr>sent := sent s @
                   [\<lparr> msg_command = ''action/result'', msg_game = game s,
                      msg_data = Some (ActionResultMessageData (amd_id d) True
                        (Some (''[NeuroClientWrapper] Unknown action: '' @ [dq] @ amd_name d
                                 @ [dq]))) \<rparr>]\<rparr>)"
  using assms
  by (auto simp: handleActionMessage_def sendActionResult_def sendMessage_def)

text \<open>
  The amended C6 at the request \<open>jump\<close> without data, with \<open>a\<close> registered.
\<close>

theorem unknown_action_result_witness:
  "ws (onAction (HostHandler 0) (ex_client [ex_action ''a''] [])) = Some OPEN
   \<and> find (\<lambda>a. name a = ''jump'')
        (heap (onAction (HostHandler 0) (ex_client [ex_action ''a''] [])) 0) = None
   \<and> handleActionMessage (\<lambda>_. Inl ''Unexpected end of JSON input'')
        (\<lambda>_ _. \<lparr> valid = True, errors = [] \<rparr>)
        \<lparr> amd_id = ''7'', amd_name = ''jump'', amd_data = None \<rparr>
        (onAction (HostHandler 0) (ex_client [ex_action ''a''] []))
      = (Returned,
         (onAction (HostHandler 0) (ex_client [ex_action ''a''] []))
           \<lparr>sent := [\<lparr> msg_command = ''action/result'', msg_game = ''Game'',
                       msg_data = Some (ActionResultMessageData ''7'' True
                         (Some (''[NeuroClientWrapper] Unknown action: '' @ [dq] @ ''jump''
                                  @ [dq]))) \<rparr>]\<rparr>)"
  using unknown_action_result
          [of "onAction (HostHandler 0) (ex_client [ex_action ''a''] [])"
              "\<lparr> amd_id = ''7'', amd_name = ''jump'', amd_data = None \<rparr>"
              "\<lambda>_. Inl ''Unexpected end of JSON input''"
              "\<lambda>_ _. \<lparr> valid = True, errors = [] \<rparr>"]
  by (simp add: onAction_def ex_client_def new_NeuroClientWrapper_def ex_action_def)

text \<open>
  C6 as stated fails: a request for the unregistered \<open>jump\<close> whose data is not valid
  JSON is answered with \<open>success = false\<close>, since the data is parsed before the name is
  looked up.
\<close>

theorem unknown_action_malformed_data_counterexample:
  "find (\<lambda>a. name a = ''jump'') (heap (ex_client [ex_action ''a''] []) 0) = None
   \<and> sent (snd (handleActionMessage (\<lambda>_. Inl ''Unexpected end of JSON input'')
        (\<lambda>_ _. \<lparr> valid = True, errors = [] \<rparr>)
        \<lparr> amd_id = ''7'', amd_name = ''jump'', amd_data = Some ''{'' \<rparr>
        (ex_client [ex_action ''a''] [])))
      = [\<lparr> msg_command = ''action/result'', msg_game = ''Game'',
           msg_data = Some (ActionResultMessageData ''7'' False
             (Some ''Invalid action data: Unexpected end of JSON input'')) \<rparr>]"
  by (simp add: handleActionMessage_def sendActionResult_def sendMessage_def console_call_def Let_def
        ex_client_def new_NeuroClientWrapper_def ex_action_def)

text \<open>
  C7 (as amended). For an incoming action request whose data is present, not empty and
  rejected by \<open>JSON.parse\<close>, while the connection is open: exactly one
  \<open>action/result\<close> is sent, for the request's id, with \<open>success = false\<close> and the
  message \<open>Invalid action data: \<close> followed by the parse error; besides two console lines
  nothing else changes, so no handler is called and the registry is as before. When the data
  is absent, the request is handled as one whose data parses to the empty object; for a
  registered action without schema the handlers receive \<open>params = {}\<close>.
\<close>

theorem invalid_action_data_result:
  "(ws s = Some OPEN \<and> amd_data d = Some str \<and> str \<noteq> [] \<and> JSON_parse str = Inl err \<longrightarrow>
      handleActionMessage JSON_parse validate d s
        = (Returned,
           s\<lparr>sent := sent s @
                [\<lparr> msg_command = ''action/result'', msg_game = game s,
                   msg_data = Some (ActionResultMessageData (amd_id d) False
                     (Some (''Invalid action data: '' @ err))) \<rparr>],
             console := console s @
                [(WARN, ''[NeuroClient] Empty messageText field even though success was false!''),
                 (ERROR, ''[NeuroClientWrapper] Invalid action data: '' @ err)]\<rparr>))
   \<and> (amd_data d = None \<longrightarrow>
        handleActionMessage JSON_parse validate d s
          = handleActionMessage (\<lambda>_. Inr (JObj [])) validate (d\<lparr>amd_data := Some ''{}''\<rparr>) s)
   \<and> (amd_data d = None \<and> find (\<lambda>a. name a = amd_name d) (heap s (registeredActions s)) = Some action
        \<and> schema action = None \<and> actionHandlers s \<noteq> [] \<longrightarrow>
        handleActionMessage JSON_parse validate d s
          = call_handlers (actionHandlers s)
              \<lparr> ad_id = amd_id d, ad_name = amd_name d, params = JObj [] \<rparr> s)"
  by (auto simp: handleActionMessage_def sendActionResult_def sendMessage_def console_call_def
        Let_def split: option.splits)

text \<open>
  The amended C7 at a request with data \<open>{\<close>, and at a request without data.
\<close>

theorem invalid_action_data_result_witness:
  "handleActionMessage (\<lambda>_. Inl ''Unexpected end of JSON input'')
        (\<lambda>_ _. \<lparr> valid = True, errors = [] \<rparr>)
        \<lparr> amd_id = ''7'', amd_name = ''a'', amd_data = Some ''{'' \<rparr>
        (onAction (HostHandler 0) (ex_client [ex_action ''a''] []))
      = (Returned,
         (onAction (HostHandler 0) (ex_client [ex_action ''a''] []))
           \<lparr>sent := [\<lparr> msg_command = ''action/result'', msg_game = ''Game'',
                       msg_data = Some (ActionResultMessageData ''7'' False
                         (Some ''Invalid action data: Unexpected end of JSON input'')) \<rparr>],
             console :=
                [(WARN, ''[NeuroClient] Empty messageText field even though success was false!''),
                 (ERROR, ''[NeuroClientWrapper] Invalid action data: Unexpected end of JSON input'')]\<rparr>)
   \<and> handleActionMessage (\<lambda>_. Inl ''Unexpected end of JSON input'')
        (\<lambda>_ _. \<lparr> valid = True, errors = [] \<rparr>)
        \<lparr> amd_id = ''8'', amd_name = ''a'', amd_data = None \<rparr>
        ((ex_client [ex_action ''a''] [])\<lparr>actionHandlers := [HostHandler 0]\<rparr>)
      = (Returned,
         (ex_client [ex_action ''a''] [])
           \<lparr>actionHandlers := [HostHandler 0],
             invoked := [(0, \<lparr> ad_id = ''8'', ad_name = ''a'', params = JObj [] \<rparr>)]\<rparr>)"
  using invalid_action_data_result
          [of "onAction (HostHandler 0) (ex_client [ex_action ''a''] [])"
              "\<lparr> amd_id = ''7'', amd_name = ''a'', amd_data = Some ''{'' \<rparr>" "''{''"
              "\<lambda>_. Inl ''Unexpected end of JSON input''" "''Unexpected end of JSON input''"
              "\<lambda>_ _. \<lparr> valid = True, errors = [] \<rparr>"]
        invalid_action_data_result
          [of "(ex_client [ex_action ''a''] [])\<lparr>actionHandlers := [HostHandler 0]\<rparr>"
              "\<lparr> amd_id = ''8'', amd_name = ''a'', amd_data = None \<rparr>" "''{''"
              "\<lambda>_. Inl ''Unexpected end of JSON input''" "''Unexpected end of JSON input''"
              "\<lambda>_ _. \<lparr> valid = True, errors = [] \<rparr>" "ex_action ''a''"]
  by (simp add: handleActionMessage_def sendActionResult_def sendMessage_def console_call_def
        Let_def onAction_def ex_client_def new_NeuroClientWrapper_def ex_action_def)

text \<open>
  C7 as stated fails: data that is present but the empty string is not valid JSON, yet it
  is not parsed; the request goes on to the lookup and here gets the answer for an unknown
  action, with \<open>success = true\<close>.
\<close>

theorem empty_action_data_counterexample:
  "(\<lambda>_. Inl ''Unexpected end of JSON input'' :: string + json) '''' = Inl ''Unexpected end of JSON input''
   \<and> sent (snd (handleActionMessage (\<lambda>_. Inl ''Unexpected end of JSON input'')
        (\<lambda>_ _. \<lparr> valid = True, errors = [] \<rparr>)
        \<lparr> amd_id = ''7'', amd_name = ''jump'', amd_data = Some '''' \<rparr>
        (ex_client [ex_action ''a''] [])))
      = [\<lparr> msg_command = ''action/result'', msg_game = ''Game'',
           msg_data = Some (ActionResultMessageData ''7'' True
             (Some (''[NeuroClientWrapper] Unknown action: '' @ [dq] @ ''jump'' @ [dq]))) \<rparr>]"
  by (simp add: handleActionMessage_def sendActionResult_def sendMessage_def console_call_def Let_def
        ex_client_def new_NeuroClientWrapper_def ex_action_def)

text \<open>
  C8. \<open>disconnect\<close> closes the transport only when the connection is open, and is
  idempotent: when the connection is not open it changes nothing (no call of \<open>close\<close>, no
  fault), a second call right after a first changes nothing, and one or two calls in a row
  make the same number of \<open>close\<close> calls, one if the connection was open and none
  otherwise.
\<close>

theorem disconnect_idempotent:
  "(ws s \<noteq> Some OPEN \<longrightarrow> disconnect s = s)
   \<and> (ws s = Some OPEN \<longrightarrow> closes (disconnect s) = Suc (closes s) \<and> ws (disconnect s) = Some CLOSING)
   \<and> disconnect (disconnect s) = disconnect s
   \<and> closes (disconnect (disconnect s)) = closes s + (if ws s = Some OPEN then 1 else 0)"
  by (simp add: disconnect_def)

theorem disconnect_idempotent_witness:
  "ws ((new_NeuroClientWrapper ''ws://localhost:8000'' ''Game'')\<lparr>ws := Some OPEN\<rparr>) = Some OPEN
   \<and> closes (disconnect (disconnect
        ((new_NeuroClientWrapper ''ws://localhost:8000'' ''Game'')\<lparr>ws := Some OPEN\<rparr>))) = 1
   \<and> ws (new_NeuroClientWrapper ''ws://localhost:8000'' ''Game'') \<noteq> Some OPEN
   \<and> disconnect (new_NeuroClientWrapper ''ws://localhost:8000'' ''Game'')
       = new_NeuroClientWrapper ''ws://localhost:8000'' ''Game''"
  using disconnect_idempotent
          [of "(new_NeuroClientWrapper ''ws://localhost:8000'' ''Game'')\<lparr>ws := Some OPEN\<rparr>"]
        disconnect_idempotent [of "new_NeuroClientWrapper ''ws://localhost:8000'' ''Game''"]
  by (simp add: new_NeuroClientWrapper_def)

text \<open>
  C9. \<open>forceActions\<close> of the wrapper with priority and ephemeral context omitted: the
  frame carries neither member, where the claim has \<open>priority = "low"\<close> and
  \<open>ephemeral_context = false\<close>; the method of \<open>NeuroClient\<close> that it overrides sends
  both.
\<close>

theorem forceActions_omitted_arguments_not_defaulted:
  "sent (forceActions ''pick one'' [''a''] None None None (ex_client [ex_action ''a''] []))
     = [\<lparr> msg_command = ''actions/force'', msg_game = ''Game'',
          msg_data = Some (ForceActionsMessageData None ''pick one'' None None [''a'']) \<rparr>]
   \<and> sent (NeuroClient_forceActions ''pick one'' [''a''] None None None
             (ex_client [ex_action ''a''] []))
     = [\<lparr> msg_command = ''actions/force'', msg_game = ''Game'',
          msg_data = Some (ForceActionsMessageData None ''pick one'' (Some False) (Some LOW)
                             [''a'']) \<rparr>]"
  by (simp add: forceActions_def NeuroClient_forceActions_def ex_client_def
        new_NeuroClientWrapper_def ex_action_def sendMessage_def loggingHandler_def Let_def)

text \<open>
  C10. A wrapper with one handler registered through \<open>onAction\<close> and the action
  \<open>a\<close> registered receives a request for \<open>a\<close>: the first handler in the list is the
  dispatch method itself, put there by the constructor; it is entered again, throws a
  \<open>TypeError\<close>, and the host handler is never called.
\<close>

theorem dispatch_reenters_itself_and_throws:
  "actionHandlers (onAction (HostHandler 0) (ex_client [ex_action ''a''] []))
     = [Own_handleActionMessage, HostHandler 0]
   \<and> handleActionMessage (\<lambda>_. Inr (JObj [])) (\<lambda>_ _. \<lparr> valid = True, errors = [] \<rparr>)
       \<lparr> amd_id = ''1'', amd_name = ''a'', amd_data = None \<rparr>
       (onAction (HostHandler 0) (ex_client [ex_action ''a''] []))
     = (Threw (TypeError ''Cannot read properties of undefined (reading 'registeredActions')''),
        onAction (HostHandler 0) (ex_client [ex_action ''a''] []))
   \<and> invoked (onAction (HostHandler 0) (ex_client [ex_action ''a''] [])) = []"
  by (simp add: handleActionMessage_def handleActionMessage_unbound_def onAction_def
        ex_client_def new_NeuroClientWrapper_def ex_action_def)

end
